theory Spec2Isabelle
  imports Main
begin

section \<open>CreateProjectModal: validation, description text and submission\<close>

text \<open>
  A shallow embedding of \<^verbatim>\<open>src/components/modals/CreateProjectModal.tsx\<close>: the two zod
  schemas, the description text built by the two submit handlers, and the sequence of
  calls each handler makes (\<^verbatim>\<open>addProject\<close>, \<^verbatim>\<open>supabase.auth.getSession\<close>,
  \<^verbatim>\<open>supabase.from('external_references').insert\<close>, \<^verbatim>\<open>toast\<close>, \<^verbatim>\<open>console.error\<close>,
  \<^verbatim>\<open>setOpen\<close>, \<^verbatim>\<open>reset\<close>). A handler is a function from the answers of the outside
  world and the form values to the ordered list of the effects it performs.

  Strings are lists of 8-bit characters, read as UTF-16 code units below 256, so that
  \<open>length\<close> is JavaScript's \<^verbatim>\<open>.length\<close> on them.
\<close>

subsection \<open>JavaScript string operations\<close>

text \<open>
  \<^verbatim>\<open>String.prototype.trim\<close> removes white space and line terminators from both ends.
  Below code unit 256 these are TAB, LF, VT, FF, CR, SPACE and NO-BREAK SPACE.
\<close>

definition js_whitespace :: "char \<Rightarrow> bool" where
  "js_whitespace c =
     (c = CHR 0x09 \<or> c = CHR 0x0A \<or> c = CHR 0x0B \<or> c = CHR 0x0C \<or> c = CHR 0x0D \<or>
      c = CHR 0x20 \<or> c = CHR 0xA0)"

definition trim :: "string \<Rightarrow> string" where
  "trim s = rev (dropWhile js_whitespace (rev (dropWhile js_whitespace s)))"

text \<open>
  \<^verbatim>\<open>s.split(sep)\<close> for a one-character separator: the pieces between the separators, in
  order, empty pieces kept; the empty string gives one empty piece.
\<close>

fun split :: "char \<Rightarrow> string \<Rightarrow> string list" where
  "split sep [] = [[]]"
| "split sep (c # cs) =
     (if c = sep then [] # split sep cs
      else (case split sep cs of
              [] \<Rightarrow> [[c]]
            | t # ts \<Rightarrow> (c # t) # ts))"

text \<open>
  A template literal renders an integral number in decimal (for magnitudes below
  \<open>10\<^sup>2\<^sup>1\<close>; the year input passes \<^verbatim>\<open>parseInt\<close> of the typed text).
\<close>

fun digits :: "nat \<Rightarrow> string" where
  "digits n =
     (if n < 10 then [''0123456789'' ! n]
      else digits (n div 10) @ [''0123456789'' ! (n mod 10)])"

definition number_to_string :: "int \<Rightarrow> string" where
  "number_to_string i = (if i < 0 then CHR ''-'' # digits (nat (- i)) else digits (nat i))"

text \<open>Truthiness of an optional string and of an optional number.\<close>

fun truthy_string :: "string option \<Rightarrow> bool" where
  "truthy_string None = False"
| "truthy_string (Some s) = (s \<noteq> [])"

fun truthy_number :: "int option \<Rightarrow> bool" where
  "truthy_number None = False"
| "truthy_number (Some n) = (n \<noteq> 0)"

subsection \<open>Form values\<close>

text \<open>
  A \<^verbatim>\<open>Date\<close> enters the code only through \<^verbatim>\<open>format(values.month, 'MMMM')\<close>, the full
  English name of its calendar month, so a date is represented by that month.
\<close>

datatype Month =
  January | February | March | April | May | June
  | July | August | September | October | November | December

fun format_MMMM :: "Month \<Rightarrow> string" where
  "format_MMMM January = ''January''"
| "format_MMMM February = ''February''"
| "format_MMMM March = ''March''"
| "format_MMMM April = ''April''"
| "format_MMMM May = ''May''"
| "format_MMMM June = ''June''"
| "format_MMMM July = ''July''"
| "format_MMMM August = ''August''"
| "format_MMMM September = ''September''"
| "format_MMMM October = ''October''"
| "format_MMMM November = ''November''"
| "format_MMMM December = ''December''"

text \<open>
  \<^verbatim>\<open>z.infer<typeof personalProjectSchema>\<close> and \<^verbatim>\<open>z.infer<typeof externalReferenceSchema>\<close>;
  an optional field is \<open>None\<close> when \<^verbatim>\<open>undefined\<close>. A year is an integral number, as
  \<^verbatim>\<open>parseInt\<close> gives it to the form (its other result, \<^verbatim>\<open>NaN\<close>, is no \<^verbatim>\<open>z.number()\<close>).
\<close>

record PersonalProjectFormValues =
  name :: string
  month :: "Month option"
  year :: "int option"
  duration :: "string option"
  field :: string
  coAuthors :: "string option"
  externalLinks :: "string option"

record ExternalReferenceFormValues =
  name :: string
  month :: "Month option"
  year :: "int option"
  duration :: "string option"
  field :: string
  authors :: "string option"
  externalLinks :: string

subsection \<open>The schemas\<close>

text \<open>
  A failed check is a zod issue: the path of the field, the issue code and the message the
  schema supplies (\<open>None\<close> where the schema leaves zod's default message).
\<close>

datatype IssueCode = too_small | too_big

datatype ZodIssue = ZodIssue string IssueCode "string option"

text \<open>\<^verbatim>\<open>z.string().min(1, { message })\<close>\<close>

definition string_min1 :: "string \<Rightarrow> string \<Rightarrow> string \<Rightarrow> ZodIssue list" where
  "string_min1 path message s =
     (if length s < 1 then [ZodIssue path too_small (Some message)] else [])"

text \<open>\<^verbatim>\<open>z.number().min(1900).max(2100).optional()\<close>\<close>

fun year_checks :: "int option \<Rightarrow> ZodIssue list" where
  "year_checks None = []"
| "year_checks (Some y) =
     (if y < 1900 then [ZodIssue ''year'' too_small None] else []) @
     (if y > 2100 then [ZodIssue ''year'' too_big None] else [])"

text \<open>
  Parsing with a schema: the issues of all fields in the order of the schema's keys, or the
  values when there is none. \<^verbatim>\<open>month\<close>, \<^verbatim>\<open>duration\<close>, \<^verbatim>\<open>coAuthors\<close>, \<^verbatim>\<open>authors\<close> and the
  personal \<^verbatim>\<open>externalLinks\<close> carry no check beyond their type.
\<close>

definition personalProjectSchema ::
  "PersonalProjectFormValues \<Rightarrow> ZodIssue list + PersonalProjectFormValues" where
  "personalProjectSchema values =
     (let issues =
            string_min1 ''name'' ''Project name is required''
              (PersonalProjectFormValues.name values) @
            year_checks (PersonalProjectFormValues.year values) @
            string_min1 ''field'' ''Field is required''
              (PersonalProjectFormValues.field values)
      in if issues = [] then Inr values else Inl issues)"

definition externalReferenceSchema ::
  "ExternalReferenceFormValues \<Rightarrow> ZodIssue list + ExternalReferenceFormValues" where
  "externalReferenceSchema values =
     (let issues =
            string_min1 ''name'' ''Reference name is required''
              (ExternalReferenceFormValues.name values) @
            year_checks (ExternalReferenceFormValues.year values) @
            string_min1 ''field'' ''Field is required''
              (ExternalReferenceFormValues.field values) @
            string_min1 ''externalLinks'' ''At least one external link is required''
              (ExternalReferenceFormValues.externalLinks values)
      in if issues = [] then Inr values else Inl issues)"

subsection \<open>Effects and the outside world\<close>

datatype Form = personalForm | externalForm

datatype Event =
    AddProject string string
  | GetSession
  | Insert string string string
  | ToastSuccess string
  | ToastError string
  | ConsoleError string string
  | SetOpen bool
  | Reset Form

text \<open>
  \<open>AddProject name description\<close> is \<^verbatim>\<open>addProject({ name, description })\<close>,
  \<open>Insert url project_name user_id\<close> is the insert of one row into
  \<^verbatim>\<open>external_references\<close>, \<open>ConsoleError label error\<close> is \<^verbatim>\<open>console.error(label, error)\<close>.

  The answers of the collaborators are parameters. \<^verbatim>\<open>addProject\<close> comes from
  \<^verbatim>\<open>FontContext\<close>: \<open>None\<close> when its promise resolves, \<open>Some e\<close> when it rejects with
  \<open>e\<close>. \<^verbatim>\<open>getSession\<close> gives the user id of the session, \<open>None\<close> for no session. The
  insert numbered \<open>k\<close> (counting the inserts of one submission from 0) answers with its
  \<^verbatim>\<open>error\<close> field, \<open>None\<close> when the row was stored. The two supabase calls report
  a failure in their answer and do not reject, so the \<^verbatim>\<open>catch\<close> of a handler is entered
  from \<^verbatim>\<open>addProject\<close> only.
\<close>

record World =
  addProject :: "string \<Rightarrow> string \<Rightarrow> string option"
  getSession :: "string option"
  insert_error :: "nat \<Rightarrow> string \<Rightarrow> string \<Rightarrow> string \<Rightarrow> string option"

subsection \<open>The submit handlers\<close>

text \<open>The text accumulated in \<^verbatim>\<open>description\<close> by \<^verbatim>\<open>onSubmitPersonal\<close>, before trimming.\<close>

definition personalDescription :: "PersonalProjectFormValues \<Rightarrow> string" where
  "personalDescription values =
     (let description = [];
          description =
            (if PersonalProjectFormValues.field values \<noteq> []
             then description @ ''Field: '' @ PersonalProjectFormValues.field values @ ''\<newline>''
             else description);
          description =
            (case PersonalProjectFormValues.month values of
               Some m \<Rightarrow>
                 description @ ''Date: '' @ format_MMMM m @
                 (if truthy_number (PersonalProjectFormValues.year values)
                  then '' '' @ number_to_string (the (PersonalProjectFormValues.year values))
                  else []) @ ''\<newline>''
             | None \<Rightarrow>
                 (if truthy_number (PersonalProjectFormValues.year values)
                  then description @ ''Year: '' @
                       number_to_string (the (PersonalProjectFormValues.year values)) @ ''\<newline>''
                  else description));
          description =
            (if truthy_string (PersonalProjectFormValues.duration values)
             then description @ ''Duration: '' @
                  the (PersonalProjectFormValues.duration values) @ ''\<newline>''
             else description);
          description =
            (if truthy_string (coAuthors values)
             then description @ ''Co-authors: '' @ the (coAuthors values) @ ''\<newline>''
             else description);
          description =
            (if truthy_string (PersonalProjectFormValues.externalLinks values)
             then description @ ''External Links: '' @
                  the (PersonalProjectFormValues.externalLinks values) @ ''\<newline>''
             else description)
      in description)"

definition onSubmitPersonal :: "World \<Rightarrow> PersonalProjectFormValues \<Rightarrow> Event list" where
  "onSubmitPersonal world values =
     (let description = personalDescription values;
          call = AddProject (PersonalProjectFormValues.name values) (trim description)
      in case addProject world (PersonalProjectFormValues.name values) (trim description) of
           None \<Rightarrow>
             [call, ToastSuccess ''Project created successfully!'', SetOpen False,
              Reset personalForm]
         | Some error \<Rightarrow>
             [call, ConsoleError ''Error creating project:'' error,
              ToastError ''Failed to create project''])"

text \<open>The text accumulated in \<^verbatim>\<open>description\<close> by \<^verbatim>\<open>onSubmitExternal\<close>, before trimming.\<close>

definition externalDescription :: "ExternalReferenceFormValues \<Rightarrow> string" where
  "externalDescription values =
     (let description = ''External Reference\<newline>'';
          description =
            (if ExternalReferenceFormValues.field values \<noteq> []
             then description @ ''Field: '' @ ExternalReferenceFormValues.field values @ ''\<newline>''
             else description);
          description =
            (case ExternalReferenceFormValues.month values of
               Some m \<Rightarrow>
                 description @ ''Date: '' @ format_MMMM m @
                 (if truthy_number (ExternalReferenceFormValues.year values)
                  then '' '' @ number_to_string (the (ExternalReferenceFormValues.year values))
                  else []) @ ''\<newline>''
             | None \<Rightarrow>
                 (if truthy_number (ExternalReferenceFormValues.year values)
                  then description @ ''Year: '' @
                       number_to_string (the (ExternalReferenceFormValues.year values)) @ ''\<newline>''
                  else description));
          description =
            (if truthy_string (ExternalReferenceFormValues.duration values)
             then description @ ''Duration: '' @
                  the (ExternalReferenceFormValues.duration values) @ ''\<newline>''
             else description);
          description =
            (if truthy_string (authors values)
             then description @ ''Authors: '' @ the (authors values) @ ''\<newline>''
             else description)
      in description)"

text \<open>
  The loop \<^verbatim>\<open>for (const url of links)\<close>: an empty \<open>url\<close> is skipped; for any other one
  row is inserted, and an error in the answer is logged and shown, after which the loop goes
  on. \<open>k\<close> counts the inserts made so far.
\<close>

fun insertLinks :: "World \<Rightarrow> string \<Rightarrow> string \<Rightarrow> nat \<Rightarrow> string list \<Rightarrow> Event list" where
  "insertLinks world project_name user_id k [] = []"
| "insertLinks world project_name user_id k (url # links) =
     (if url \<noteq> [] then
        Insert url project_name user_id #
        (case insert_error world k url project_name user_id of
           Some error \<Rightarrow>
             [ConsoleError ''Error adding external reference:'' error,
              ToastError ''Failed to add external reference'']
         | None \<Rightarrow> []) @
        insertLinks world project_name user_id (Suc k) links
      else insertLinks world project_name user_id k links)"

definition onSubmitExternal :: "World \<Rightarrow> ExternalReferenceFormValues \<Rightarrow> Event list" where
  "onSubmitExternal world values =
     (let description = externalDescription values;
          call = AddProject (ExternalReferenceFormValues.name values) (trim description)
      in case addProject world (ExternalReferenceFormValues.name values) (trim description) of
           Some error \<Rightarrow>
             [call, ConsoleError ''Error creating external reference:'' error,
              ToastError ''Failed to create external reference'']
         | None \<Rightarrow>
             (case getSession world of
                None \<Rightarrow>
                  [call, GetSession,
                   ToastError ''You must be logged in to add external references'']
              | Some user_id \<Rightarrow>
                  (let links =
                         map trim (split CHR '','' (ExternalReferenceFormValues.externalLinks values))
                   in [call, GetSession] @
                      insertLinks world (ExternalReferenceFormValues.name values) user_id 0 links @
                      [ToastSuccess ''External reference created successfully!'', SetOpen False,
                       Reset externalForm])))"

text \<open>
  \<^verbatim>\<open>form.handleSubmit(onSubmit)\<close> with \<^verbatim>\<open>zodResolver(schema)\<close>: the handler runs on the
  parsed values only when parsing gave no issue; otherwise the issues go to the form and
  nothing else happens.
\<close>

definition handleSubmit ::
  "('v \<Rightarrow> ZodIssue list + 'v) \<Rightarrow> ('v \<Rightarrow> Event list) \<Rightarrow> 'v \<Rightarrow> ZodIssue list \<times> Event list" where
  "handleSubmit resolver onValid raw =
     (case resolver raw of
        Inl issues \<Rightarrow> (issues, [])
      | Inr values \<Rightarrow> ([], onValid values))"

subsection \<open>Observing a run\<close>

fun isAddProject :: "Event \<Rightarrow> bool" where
  "isAddProject (AddProject n d) = True"
| "isAddProject e = False"

fun isGetSession :: "Event \<Rightarrow> bool" where
  "isGetSession GetSession = True"
| "isGetSession e = False"

fun isInsert :: "Event \<Rightarrow> bool" where
  "isInsert (Insert url project_name user_id) = True"
| "isInsert e = False"

definition isGatewayCall :: "Event \<Rightarrow> bool" where
  "isGatewayCall e = (isAddProject e \<or> isGetSession e \<or> isInsert e)"

text \<open>The calls to the project store and to the link store, in order.\<close>

definition gatewayCalls :: "Event list \<Rightarrow> Event list" where
  "gatewayCalls run = filter isGatewayCall run"

text \<open>What the user is shown: the toasts, the closing of the dialog, the reset of the form.\<close>

fun isNotification :: "Event \<Rightarrow> bool" where
  "isNotification (ToastSuccess m) = True"
| "isNotification (ToastError m) = True"
| "isNotification (SetOpen b) = True"
| "isNotification (Reset f) = True"
| "isNotification e = False"

definition notifications :: "Event list \<Rightarrow> Event list" where
  "notifications run = filter isNotification run"

text \<open>Everything a run shows or logs: all its effects but the gateway calls.\<close>

definition shownOrLogged :: "Event list \<Rightarrow> Event list" where
  "shownOrLogged run = filter (\<lambda>e. \<not> isGatewayCall e) run"

subsection \<open>The specification's notions\<close>

text \<open>
  The candidate URLs in the specification's words: split the text on commas, trim each
  token, discard the empty tokens.
\<close>

definition candidateUrls :: "string \<Rightarrow> string list" where
  "candidateUrls text = filter (\<lambda>token. token \<noteq> []) (map trim (split CHR '','' text))"

text \<open>
  The failed URLs in the specification's words: one link creation per candidate URL, in
  order; the failed URLs are those whose creation failed. \<open>k\<close> numbers the creations.
\<close>

fun failedUrls :: "World \<Rightarrow> string \<Rightarrow> string \<Rightarrow> nat \<Rightarrow> string list \<Rightarrow> string list" where
  "failedUrls world project_name user_id k [] = []"
| "failedUrls world project_name user_id k (url # urls) =
     (case insert_error world k url project_name user_id of
        Some error \<Rightarrow> url # failedUrls world project_name user_id (Suc k) urls
      | None \<Rightarrow> failedUrls world project_name user_id (Suc k) urls)"

text \<open>The range of the year check.\<close>

fun yearInRange :: "int option \<Rightarrow> bool" where
  "yearInRange None = True"
| "yearInRange (Some y) = (1900 \<le> y \<and> y \<le> 2100)"

subsection \<open>Example worlds and form values\<close>

definition world_ok :: World where
  "world_ok =
     \<lparr>addProject = (\<lambda>n d. None), getSession = Some ''user-1'',
      insert_error = (\<lambda>k url p u. None)\<rparr>"

definition world_second_fails :: World where
  "world_second_fails =
     \<lparr>addProject = (\<lambda>n d. None), getSession = Some ''user-1'',
      insert_error = (\<lambda>k url p u. if k = 1 then Some ''link error'' else None)\<rparr>"

definition world_third_fails :: World where
  "world_third_fails =
     \<lparr>addProject = (\<lambda>n d. None), getSession = Some ''user-1'',
      insert_error = (\<lambda>k url p u. if k = 2 then Some ''link error'' else None)\<rparr>"

definition world_project_fails :: World where
  "world_project_fails =
     \<lparr>addProject = (\<lambda>n d. Some ''store error''), getSession = Some ''user-1'',
      insert_error = (\<lambda>k url p u. None)\<rparr>"

definition world_no_session :: World where
  "world_no_session =
     \<lparr>addProject = (\<lambda>n d. None), getSession = None,
      insert_error = (\<lambda>k url p u. None)\<rparr>"

definition reference_three_links :: ExternalReferenceFormValues where
  "reference_three_links =
     \<lparr>ExternalReferenceFormValues.name = ''Specimen'', month = None, year = None,
      duration = Some [], field = ''Type'', authors = Some [],
      externalLinks = ''https://a.com, https://b.com, https://c.com''\<rparr>"

definition reference_typography :: ExternalReferenceFormValues where
  "reference_typography =
     \<lparr>ExternalReferenceFormValues.name = ''Specimen'', month = Some March, year = Some 2023,
      duration = Some ''2 weeks'', field = ''Typography'', authors = Some ''A, B'',
      externalLinks = ''https://a.com, , https://b.com,''\<rparr>"

definition poster :: PersonalProjectFormValues where
  "poster =
     \<lparr>PersonalProjectFormValues.name = ''Poster'', month = None, year = Some 2022,
      duration = None, field = ''Print'', coAuthors = None, externalLinks = None\<rparr>"

text \<open>The same submission as the form holds it: its untouched text inputs are empty strings.\<close>

definition poster_form :: PersonalProjectFormValues where
  "poster_form =
     \<lparr>PersonalProjectFormValues.name = ''Poster'', month = None, year = Some 2022,
      duration = Some [], field = ''Print'', coAuthors = Some [], externalLinks = Some []\<rparr>"

definition reference_blank_links :: ExternalReferenceFormValues where
  "reference_blank_links =
     \<lparr>ExternalReferenceFormValues.name = ''Specimen'', month = None, year = None,
      duration = Some [], field = ''Type'', authors = Some [], externalLinks = '' ''\<rparr>"

definition reference_no_links :: ExternalReferenceFormValues where
  "reference_no_links =
     \<lparr>ExternalReferenceFormValues.name = ''Specimen'', month = None, year = None,
      duration = Some [], field = ''Type'', authors = Some [], externalLinks = []\<rparr>"

definition poster_no_name :: PersonalProjectFormValues where
  "poster_no_name =
     \<lparr>PersonalProjectFormValues.name = [], month = None, year = Some 2022,
      duration = Some [], field = ''Print'', coAuthors = Some [], externalLinks = Some []\<rparr>"

definition reference_no_field :: ExternalReferenceFormValues where
  "reference_no_field =
     \<lparr>ExternalReferenceFormValues.name = ''Specimen'', month = None, year = None,
      duration = Some [], field = [], authors = Some [],
      externalLinks = ''https://a.com''\<rparr>"

definition poster_blank :: PersonalProjectFormValues where
  "poster_blank =
     \<lparr>PersonalProjectFormValues.name = '' '', month = None, year = None,
      duration = Some [], field = '' '', coAuthors = Some [], externalLinks = Some []\<rparr>"

definition reference_blank :: ExternalReferenceFormValues where
  "reference_blank =
     \<lparr>ExternalReferenceFormValues.name = '' '', month = None, year = None,
      duration = Some [], field = '' '', authors = Some [],
      externalLinks = ''https://a.com''\<rparr>"

section \<open>Properties\<close>

subsection \<open>The link loop\<close>

lemma insertLinks_inserts:
  "filter isInsert (insertLinks w p u k links) =
     map (\<lambda>url. Insert url p u) (filter (\<lambda>url. url \<noteq> []) links)"
  by (induction links arbitrary: k) (auto split: option.splits)

lemma insertLinks_notifications:
  "filter isNotification (insertLinks w p u k links) =
     replicate (length (failedUrls w p u k (filter (\<lambda>url. url \<noteq> []) links)))
       (ToastError ''Failed to add external reference'')"
  by (induction links arbitrary: k) (auto split: option.splits)

lemma year_checks_empty: "(year_checks y = []) = yearInRange y"
  by (cases y) auto

lemma links_three:
  "map trim (split CHR '','' (ExternalReferenceFormValues.externalLinks reference_three_links)) =
     [''https://a.com'', ''https://b.com'', ''https://c.com'']"
  by (simp add: reference_three_links_def trim_def js_whitespace_def)

lemma candidates_three:
  "candidateUrls (ExternalReferenceFormValues.externalLinks reference_three_links) =
     [''https://a.com'', ''https://b.com'', ''https://c.com'']"
  by (simp add: candidateUrls_def links_three)

subsection \<open>The schemas and the handlers\<close>

lemma personalProjectSchema_accepts:
  "PersonalProjectFormValues.name p \<noteq> [] \<Longrightarrow> PersonalProjectFormValues.field p \<noteq> [] \<Longrightarrow>
   yearInRange (PersonalProjectFormValues.year p) \<Longrightarrow> personalProjectSchema p = Inr p"
  by (simp add: personalProjectSchema_def string_min1_def year_checks_empty)

lemma externalReferenceSchema_accepts:
  "ExternalReferenceFormValues.name v \<noteq> [] \<Longrightarrow> ExternalReferenceFormValues.field v \<noteq> [] \<Longrightarrow>
   yearInRange (ExternalReferenceFormValues.year v) \<Longrightarrow>
   ExternalReferenceFormValues.externalLinks v \<noteq> [] \<Longrightarrow> externalReferenceSchema v = Inr v"
  by (simp add: externalReferenceSchema_def string_min1_def year_checks_empty)

lemma onSubmitExternal_starts:
  "\<exists>rest. onSubmitExternal world values =
     AddProject (ExternalReferenceFormValues.name values) (trim (externalDescription values)) # rest"
  by (simp add: onSubmitExternal_def Let_def split: option.splits)

lemma onSubmitPersonal_starts:
  "\<exists>rest. onSubmitPersonal world p =
     AddProject (PersonalProjectFormValues.name p) (trim (personalDescription p)) # rest"
  by (simp add: onSubmitPersonal_def Let_def split: option.splits)

lemma description_poster:
  "trim (personalDescription poster) = ''Field: Print\<newline>Year: 2022''"
  "trim (personalDescription poster_form) = ''Field: Print\<newline>Year: 2022''"
  by (simp_all add: personalDescription_def poster_def poster_form_def trim_def js_whitespace_def
      number_to_string_def)

lemma onSubmitPersonal_calls:
  "gatewayCalls (onSubmitPersonal world p) =
     [AddProject (PersonalProjectFormValues.name p) (trim (personalDescription p))]"
  by (simp add: onSubmitPersonal_def Let_def gatewayCalls_def isGatewayCall_def
      split: option.split)

lemma onSubmitPersonal_created:
  "addProject world (PersonalProjectFormValues.name p) (trim (personalDescription p)) = None \<Longrightarrow>
   onSubmitPersonal world p =
     [AddProject (PersonalProjectFormValues.name p) (trim (personalDescription p)),
      ToastSuccess ''Project created successfully!'', SetOpen False, Reset personalForm]"
  by (simp add: onSubmitPersonal_def Let_def)

lemma poster_valid:
  "personalProjectSchema poster = Inr poster" "personalProjectSchema poster_form = Inr poster_form"
  by (rule personalProjectSchema_accepts; simp add: poster_def poster_form_def)+

lemma poster_name:
  "PersonalProjectFormValues.name poster = ''Poster''"
  "PersonalProjectFormValues.name poster_form = ''Poster''"
  by (simp_all add: poster_def poster_form_def)

subsection \<open>Partial failure of the link creations\<close>

text \<open>
  C1, as the code has it. When the project was created and a session exists, one insert is
  issued per candidate URL, in order. The user is shown one error toast
  \<^verbatim>\<open>Failed to add external reference\<close> per failed URL, none of which names the URL, and
  then the success toast, the closing of the dialog and the reset of the form. So a run
  with a failed link differs from a fully successful one by its error toasts, whose number
  is the number of failed URLs. In particular, with three candidate URLs of which the
  second fails, three inserts are issued and one error toast precedes the success toast.
\<close>

theorem partial_failure:
  assumes created: "addProject world (ExternalReferenceFormValues.name values)
             (trim (externalDescription values)) = None"
    and session: "getSession world = Some user_id"
  shows "filter isInsert (onSubmitExternal world values) =
           map (\<lambda>url. Insert url (ExternalReferenceFormValues.name values) user_id)
             (candidateUrls (ExternalReferenceFormValues.externalLinks values)) \<and>
         notifications (onSubmitExternal world values) =
           replicate
             (length (failedUrls world (ExternalReferenceFormValues.name values) user_id 0
                (candidateUrls (ExternalReferenceFormValues.externalLinks values))))
             (ToastError ''Failed to add external reference'') @
           [ToastSuccess ''External reference created successfully!'', SetOpen False,
            Reset externalForm] \<and>
         ((notifications (onSubmitExternal world values) =
            [ToastSuccess ''External reference created successfully!'', SetOpen False,
             Reset externalForm]) =
          (failedUrls world (ExternalReferenceFormValues.name values) user_id 0
            (candidateUrls (ExternalReferenceFormValues.externalLinks values)) = [])) \<and>
         (\<forall>u1 u2 u3 error.
            candidateUrls (ExternalReferenceFormValues.externalLinks values) = [u1, u2, u3] \<and>
            insert_error world 0 u1 (ExternalReferenceFormValues.name values) user_id = None \<and>
            insert_error world 1 u2 (ExternalReferenceFormValues.name values) user_id =
              Some error \<and>
            insert_error world 2 u3 (ExternalReferenceFormValues.name values) user_id = None \<longrightarrow>
            filter isInsert (onSubmitExternal world values) =
              [Insert u1 (ExternalReferenceFormValues.name values) user_id,
               Insert u2 (ExternalReferenceFormValues.name values) user_id,
               Insert u3 (ExternalReferenceFormValues.name values) user_id] \<and>
            notifications (onSubmitExternal world values) =
              [ToastError ''Failed to add external reference'',
               ToastSuccess ''External reference created successfully!'', SetOpen False,
               Reset externalForm])"
proof -
  let ?n = "ExternalReferenceFormValues.name values"
  let ?urls = "candidateUrls (ExternalReferenceFormValues.externalLinks values)"
  have inserts: "filter isInsert (onSubmitExternal world values) =
      map (\<lambda>url. Insert url ?n user_id) ?urls"
    using created session
    by (simp add: onSubmitExternal_def Let_def candidateUrls_def insertLinks_inserts)
  have shown: "notifications (onSubmitExternal world values) =
      replicate (length (failedUrls world ?n user_id 0 ?urls))
        (ToastError ''Failed to add external reference'') @
      [ToastSuccess ''External reference created successfully!'', SetOpen False,
       Reset externalForm]"
    using created session
    by (simp add: onSubmitExternal_def Let_def notifications_def candidateUrls_def
        insertLinks_notifications)
  have differs: "(notifications (onSubmitExternal world values) =
      [ToastSuccess ''External reference created successfully!'', SetOpen False,
       Reset externalForm]) = (failedUrls world ?n user_id 0 ?urls = [])"
    by (simp add: shown)
  have three: "filter isInsert (onSubmitExternal world values) =
        [Insert u1 ?n user_id, Insert u2 ?n user_id, Insert u3 ?n user_id] \<and>
      notifications (onSubmitExternal world values) =
        [ToastError ''Failed to add external reference'',
         ToastSuccess ''External reference created successfully!'', SetOpen False,
         Reset externalForm]"
    if "?urls = [u1, u2, u3]" "insert_error world 0 u1 ?n user_id = None"
      "insert_error world 1 u2 ?n user_id = Some error"
      "insert_error world 2 u3 ?n user_id = None"
    for u1 u2 u3 error
    using that by (simp add: inserts shown numeral_2_eq_2)
  show ?thesis
    using inserts shown differs three by blast
qed

theorem partial_failure_witness:
  "length (filter isInsert (onSubmitExternal world_second_fails reference_three_links)) = 3 \<and>
   notifications (onSubmitExternal world_second_fails reference_three_links) =
     [ToastError ''Failed to add external reference'',
      ToastSuccess ''External reference created successfully!'', SetOpen False,
      Reset externalForm]"
  using partial_failure [of world_second_fails reference_three_links "''user-1''"]
  by (simp add: candidates_three) (simp add: world_second_fails_def reference_three_links_def)

text \<open>
  The claim as written fails: the second URL failing and the third URL failing show and
  log exactly the same, so what the run reports does not list the failed URL; and the
  report ends with the success toast of a full success.
\<close>

theorem partial_failure_counterexample:
  "shownOrLogged (onSubmitExternal world_second_fails reference_three_links) =
     [ConsoleError ''Error adding external reference:'' ''link error'',
      ToastError ''Failed to add external reference'',
      ToastSuccess ''External reference created successfully!'', SetOpen False,
      Reset externalForm] \<and>
   shownOrLogged (onSubmitExternal world_third_fails reference_three_links) =
     shownOrLogged (onSubmitExternal world_second_fails reference_three_links) \<and>
   failedUrls world_second_fails ''Specimen'' ''user-1'' 0
     (candidateUrls (ExternalReferenceFormValues.externalLinks reference_three_links)) =
     [''https://b.com''] \<and>
   failedUrls world_third_fails ''Specimen'' ''user-1'' 0
     (candidateUrls (ExternalReferenceFormValues.externalLinks reference_three_links)) =
     [''https://c.com'']"
proof -
  have second: "shownOrLogged (onSubmitExternal world_second_fails reference_three_links) =
     [ConsoleError ''Error adding external reference:'' ''link error'',
      ToastError ''Failed to add external reference'',
      ToastSuccess ''External reference created successfully!'', SetOpen False,
      Reset externalForm]"
    by (simp add: onSubmitExternal_def Let_def links_three shownOrLogged_def isGatewayCall_def
        world_second_fails_def)
  have third: "shownOrLogged (onSubmitExternal world_third_fails reference_three_links) =
     [ConsoleError ''Error adding external reference:'' ''link error'',
      ToastError ''Failed to add external reference'',
      ToastSuccess ''External reference created successfully!'', SetOpen False,
      Reset externalForm]"
    by (simp add: onSubmitExternal_def Let_def links_three shownOrLogged_def isGatewayCall_def
        world_third_fails_def)
  have failed2: "failedUrls world_second_fails ''Specimen'' ''user-1'' 0
     (candidateUrls (ExternalReferenceFormValues.externalLinks reference_three_links)) =
     [''https://b.com'']"
    by (simp add: candidates_three) (simp add: world_second_fails_def)
  have failed3: "failedUrls world_third_fails ''Specimen'' ''user-1'' 0
     (candidateUrls (ExternalReferenceFormValues.externalLinks reference_three_links)) =
     [''https://c.com'']"
    by (simp add: candidates_three) (simp add: world_third_fails_def)
  show ?thesis
    using second third failed2 failed3 by simp
qed

subsection \<open>The external links are mandatory\<close>

text \<open>
  C2, as the code has it. The external schema rejects an empty \<^verbatim>\<open>externalLinks\<close> with
  the issue \<^verbatim>\<open>At least one external link is required\<close>, and then the handler is not run:
  no effect at all. Its check is a minimum length of 1, so every non-empty text passes it,
  also one of white space only. The personal schema accepts an empty or absent
  \<^verbatim>\<open>externalLinks\<close>.
\<close>

theorem external_links_mandatory:
  "(ExternalReferenceFormValues.externalLinks v = [] \<longrightarrow>
      (\<exists>issues. externalReferenceSchema v = Inl issues \<and>
         ZodIssue ''externalLinks'' too_small (Some ''At least one external link is required'')
           \<in> set issues \<and>
         handleSubmit externalReferenceSchema (onSubmitExternal world) v = (issues, []))) \<and>
   (ExternalReferenceFormValues.name v \<noteq> [] \<and> ExternalReferenceFormValues.field v \<noteq> [] \<and>
    yearInRange (ExternalReferenceFormValues.year v) \<and>
    ExternalReferenceFormValues.externalLinks v \<noteq> [] \<longrightarrow>
      externalReferenceSchema v = Inr v) \<and>
   (PersonalProjectFormValues.name p \<noteq> [] \<and> PersonalProjectFormValues.field p \<noteq> [] \<and>
    yearInRange (PersonalProjectFormValues.year p) \<longrightarrow>
      personalProjectSchema (p\<lparr>PersonalProjectFormValues.externalLinks := Some []\<rparr>) =
        Inr (p\<lparr>PersonalProjectFormValues.externalLinks := Some []\<rparr>) \<and>
      personalProjectSchema (p\<lparr>PersonalProjectFormValues.externalLinks := None\<rparr>) =
        Inr (p\<lparr>PersonalProjectFormValues.externalLinks := None\<rparr>))"
proof -
  have rejects: "\<exists>issues. externalReferenceSchema v = Inl issues \<and>
         ZodIssue ''externalLinks'' too_small (Some ''At least one external link is required'')
           \<in> set issues \<and>
         handleSubmit externalReferenceSchema (onSubmitExternal world) v = (issues, [])"
    if "ExternalReferenceFormValues.externalLinks v = []"
    using that
    by (simp add: externalReferenceSchema_def handleSubmit_def string_min1_def Let_def)
  have personal: "personalProjectSchema (p\<lparr>PersonalProjectFormValues.externalLinks := l\<rparr>) =
        Inr (p\<lparr>PersonalProjectFormValues.externalLinks := l\<rparr>)"
    if "PersonalProjectFormValues.name p \<noteq> []" "PersonalProjectFormValues.field p \<noteq> []"
      "yearInRange (PersonalProjectFormValues.year p)" for l
    using that by (intro personalProjectSchema_accepts) simp_all
  show ?thesis
    using rejects personal externalReferenceSchema_accepts [of v] by blast
qed

theorem external_links_mandatory_witness:
  "(\<exists>issues. externalReferenceSchema reference_no_links = Inl issues \<and>
      ZodIssue ''externalLinks'' too_small (Some ''At least one external link is required'')
        \<in> set issues \<and>
      handleSubmit externalReferenceSchema (onSubmitExternal world_ok) reference_no_links =
        (issues, [])) \<and>
   externalReferenceSchema reference_three_links = Inr reference_three_links \<and>
   personalProjectSchema poster_form = Inr poster_form \<and>
   personalProjectSchema poster = Inr poster"
proof -
  have a: "poster\<lparr>PersonalProjectFormValues.externalLinks := None\<rparr> = poster"
    by (simp add: poster_def)
  show ?thesis
    using external_links_mandatory [where v = reference_no_links and world = world_ok and p = poster]
      external_links_mandatory [where v = reference_three_links and world = world_ok and p = poster_form]
    by (simp add: a) (simp add: reference_no_links_def reference_three_links_def poster_def poster_form_def)
qed

text \<open>
  The claim as written fails on a text of white space only: a single space passes the
  external schema, and the submission goes on to create the project, with no link.
\<close>

theorem external_links_mandatory_counterexample:
  "externalReferenceSchema reference_blank_links = Inr reference_blank_links \<and>
   list_all js_whitespace (ExternalReferenceFormValues.externalLinks reference_blank_links) \<and>
   handleSubmit externalReferenceSchema (onSubmitExternal world_ok) reference_blank_links =
     ([], [AddProject ''Specimen'' ''External Reference\<newline>Field: Type'', GetSession,
           ToastSuccess ''External reference created successfully!'', SetOpen False,
           Reset externalForm])"
proof -
  have ok: "externalReferenceSchema reference_blank_links = Inr reference_blank_links"
    by (rule externalReferenceSchema_accepts) (simp_all add: reference_blank_links_def)
  have ws: "list_all js_whitespace (ExternalReferenceFormValues.externalLinks reference_blank_links)"
    by (simp add: reference_blank_links_def js_whitespace_def)
  have desc: "trim (externalDescription reference_blank_links) = ''External Reference\<newline>Field: Type''"
    by (simp add: externalDescription_def reference_blank_links_def trim_def js_whitespace_def)
  have links: "map trim (split CHR '','' (ExternalReferenceFormValues.externalLinks reference_blank_links)) = [[]]"
    by (simp add: reference_blank_links_def trim_def js_whitespace_def)
  have run: "onSubmitExternal world_ok reference_blank_links =
      [AddProject ''Specimen'' ''External Reference\<newline>Field: Type'', GetSession,
           ToastSuccess ''External reference created successfully!'', SetOpen False,
           Reset externalForm]"
    unfolding onSubmitExternal_def Let_def desc links
    by (simp add: world_ok_def reference_blank_links_def)
  show ?thesis
    using ws by (simp add: handleSubmit_def ok run)
qed

subsection \<open>The project comes first\<close>

text \<open>
  C3. When \<^verbatim>\<open>addProject\<close> fails, the external handler logs the error, shows
  \<^verbatim>\<open>Failed to create external reference\<close> and stops: no session lookup and no insert.
  Conversely, a run that looks up the session or inserts a link has created the project, and
  the creation of the project is its first effect.
\<close>

theorem project_before_links:
  "(addProject world (ExternalReferenceFormValues.name values)
      (trim (externalDescription values)) = Some error \<longrightarrow>
      onSubmitExternal world values =
        [AddProject (ExternalReferenceFormValues.name values) (trim (externalDescription values)),
         ConsoleError ''Error creating external reference:'' error,
         ToastError ''Failed to create external reference''] \<and>
      filter isGetSession (onSubmitExternal world values) = [] \<and>
      filter isInsert (onSubmitExternal world values) = []) \<and>
   (filter isGetSession (onSubmitExternal world values) \<noteq> [] \<or>
    filter isInsert (onSubmitExternal world values) \<noteq> [] \<longrightarrow>
      addProject world (ExternalReferenceFormValues.name values)
        (trim (externalDescription values)) = None \<and>
      (\<exists>rest. onSubmitExternal world values =
         AddProject (ExternalReferenceFormValues.name values)
           (trim (externalDescription values)) # rest))"
proof -
  have failed: "onSubmitExternal world values =
        [AddProject (ExternalReferenceFormValues.name values) (trim (externalDescription values)),
         ConsoleError ''Error creating external reference:'' error,
         ToastError ''Failed to create external reference'']"
    if "addProject world (ExternalReferenceFormValues.name values)
      (trim (externalDescription values)) = Some error" for error
    using that by (simp add: onSubmitExternal_def Let_def)
  have none: "filter isGetSession (onSubmitExternal world values) = [] \<and>
      filter isInsert (onSubmitExternal world values) = []"
    if "addProject world (ExternalReferenceFormValues.name values)
      (trim (externalDescription values)) = Some error" for error
    by (simp add: failed [OF that])
  have created: "addProject world (ExternalReferenceFormValues.name values)
        (trim (externalDescription values)) = None"
    if "filter isGetSession (onSubmitExternal world values) \<noteq> [] \<or>
        filter isInsert (onSubmitExternal world values) \<noteq> []"
  proof (cases "addProject world (ExternalReferenceFormValues.name values)
        (trim (externalDescription values))")
    case None
    then show ?thesis .
  next
    case (Some e)
    from none [OF Some] that show ?thesis by simp
  qed
  show ?thesis
    using failed none created onSubmitExternal_starts [of world "values"] by blast
qed

theorem project_before_links_witness:
  "onSubmitExternal world_project_fails reference_three_links =
     [AddProject ''Specimen'' ''External Reference\<newline>Field: Type'',
      ConsoleError ''Error creating external reference:'' ''store error'',
      ToastError ''Failed to create external reference''] \<and>
   filter isInsert (onSubmitExternal world_ok reference_three_links) \<noteq> [] \<and>
   addProject world_ok ''Specimen'' ''External Reference\<newline>Field: Type'' = None"
proof -
  have desc: "trim (externalDescription reference_three_links) = ''External Reference\<newline>Field: Type''"
    by (simp add: externalDescription_def reference_three_links_def trim_def js_whitespace_def)
  have n: "ExternalReferenceFormValues.name reference_three_links = ''Specimen''"
    by (simp add: reference_three_links_def)
  have fails: "addProject world_project_fails ''Specimen'' ''External Reference\<newline>Field: Type'' = Some ''store error''"
    by (simp add: world_project_fails_def)
  have ins: "filter isInsert (onSubmitExternal world_ok reference_three_links) \<noteq> []"
    by (simp add: onSubmitExternal_def Let_def links_three world_ok_def)
  show ?thesis
    using project_before_links [of world_project_fails reference_three_links "''store error''"]
      project_before_links [of world_ok reference_three_links "''store error''"] fails ins
    by (simp add: desc n)
qed

subsection \<open>No session\<close>

text \<open>
  C4. When the project was created and there is no session, the external handler shows
  \<^verbatim>\<open>You must be logged in to add external references\<close> and returns: no insert is issued,
  whatever the links, and the only calls made are the creation of the project and the
  session lookup, so nothing undoes the project. What the user is shown differs from what
  any run with a failed project creation shows.
\<close>

theorem unauthorized_no_links:
  assumes created: "addProject world (ExternalReferenceFormValues.name values)
             (trim (externalDescription values)) = None"
    and no_session: "getSession world = None"
  shows "onSubmitExternal world values =
           [AddProject (ExternalReferenceFormValues.name values) (trim (externalDescription values)),
            GetSession, ToastError ''You must be logged in to add external references''] \<and>
         filter isInsert (onSubmitExternal world values) = [] \<and>
         gatewayCalls (onSubmitExternal world values) =
           [AddProject (ExternalReferenceFormValues.name values) (trim (externalDescription values)),
            GetSession] \<and>
         (\<forall>world' values' error.
            addProject world' (ExternalReferenceFormValues.name values')
              (trim (externalDescription values')) = Some error \<longrightarrow>
            notifications (onSubmitExternal world' values') \<noteq>
              notifications (onSubmitExternal world values))"
proof -
  have run: "onSubmitExternal world values =
           [AddProject (ExternalReferenceFormValues.name values) (trim (externalDescription values)),
            GetSession, ToastError ''You must be logged in to add external references'']"
    using created no_session by (simp add: onSubmitExternal_def Let_def)
  have distinct: "notifications (onSubmitExternal world' values') \<noteq>
              notifications (onSubmitExternal world values)"
    if "addProject world' (ExternalReferenceFormValues.name values')
          (trim (externalDescription values')) = Some error" for world' values' error
    using that by (simp add: run notifications_def) (simp add: onSubmitExternal_def Let_def)
  show ?thesis
    using distinct by (simp add: run gatewayCalls_def isGatewayCall_def)
qed

theorem unauthorized_no_links_witness:
  "onSubmitExternal world_no_session reference_three_links =
     [AddProject ''Specimen'' ''External Reference\<newline>Field: Type'', GetSession,
      ToastError ''You must be logged in to add external references''] \<and>
   notifications (onSubmitExternal world_project_fails reference_three_links) \<noteq>
     notifications (onSubmitExternal world_no_session reference_three_links)"
proof -
  have desc: "trim (externalDescription reference_three_links) = ''External Reference\<newline>Field: Type''"
    by (simp add: externalDescription_def reference_three_links_def trim_def js_whitespace_def)
  have n: "ExternalReferenceFormValues.name reference_three_links = ''Specimen''"
    by (simp add: reference_three_links_def)
  have a: "addProject world_no_session ''Specimen'' ''External Reference\<newline>Field: Type'' = None"
    "getSession world_no_session = None"
    "addProject world_project_fails ''Specimen'' ''External Reference\<newline>Field: Type'' = Some ''store error''"
    by (simp_all add: world_no_session_def world_project_fails_def)
  note th = unauthorized_no_links [of world_no_session reference_three_links,
      unfolded desc n, OF a(1) a(2)]
  have run: "onSubmitExternal world_no_session reference_three_links =
     [AddProject ''Specimen'' ''External Reference\<newline>Field: Type'', GetSession,
      ToastError ''You must be logged in to add external references'']"
    using th by blast
  have "addProject world_project_fails
          (ExternalReferenceFormValues.name reference_three_links)
          (trim (externalDescription reference_three_links)) = Some ''store error''"
    by (simp add: desc n a(3))
  with th have "notifications (onSubmitExternal world_project_fails reference_three_links) \<noteq>
     notifications (onSubmitExternal world_no_session reference_three_links)"
    by blast
  with run show ?thesis by blast
qed

subsection \<open>The description text\<close>

text \<open>
  C5. The description is a function of the form values alone: whatever the world answers,
  each handler first calls \<^verbatim>\<open>addProject\<close> with the name and the trimmed description of
  the values. For the external values with field \<^verbatim>\<open>Typography\<close>, month March, year 2023,
  duration \<^verbatim>\<open>2 weeks\<close> and authors \<^verbatim>\<open>A, B\<close> it is the five lines of the claim. The
  external description does not depend on \<^verbatim>\<open>externalLinks\<close> (nor on the name): it has no
  line for the links.
\<close>

theorem description_deterministic:
  "(ExternalReferenceFormValues.field v = ''Typography'' \<and>
    ExternalReferenceFormValues.month v = Some March \<and>
    ExternalReferenceFormValues.year v = Some 2023 \<and>
    ExternalReferenceFormValues.duration v = Some ''2 weeks'' \<and>
    authors v = Some ''A, B'' \<longrightarrow>
      trim (externalDescription v) =
        ''External Reference\<newline>Field: Typography\<newline>Date: March 2023\<newline>Duration: 2 weeks\<newline>Authors: A, B'') \<and>
   externalDescription (v\<lparr>ExternalReferenceFormValues.externalLinks := links\<rparr>) =
     externalDescription v \<and>
   externalDescription (v\<lparr>ExternalReferenceFormValues.name := n\<rparr>) = externalDescription v \<and>
   (\<exists>rest. onSubmitExternal world v =
      AddProject (ExternalReferenceFormValues.name v) (trim (externalDescription v)) # rest) \<and>
   (\<exists>rest. onSubmitPersonal world p =
      AddProject (PersonalProjectFormValues.name p) (trim (personalDescription p)) # rest)"
proof -
  have example: "trim (externalDescription v) =
        ''External Reference\<newline>Field: Typography\<newline>Date: March 2023\<newline>Duration: 2 weeks\<newline>Authors: A, B''"
    if "ExternalReferenceFormValues.field v = ''Typography''"
      "ExternalReferenceFormValues.month v = Some March"
      "ExternalReferenceFormValues.year v = Some 2023"
      "ExternalReferenceFormValues.duration v = Some ''2 weeks''"
      "authors v = Some ''A, B''"
    using that
    by (simp add: externalDescription_def trim_def js_whitespace_def number_to_string_def)
  have no_links: "externalDescription (v\<lparr>ExternalReferenceFormValues.externalLinks := links\<rparr>) =
     externalDescription v"
    by (simp add: externalDescription_def Let_def split: option.split)
  have no_name: "externalDescription (v\<lparr>ExternalReferenceFormValues.name := n\<rparr>) =
     externalDescription v"
    by (simp add: externalDescription_def Let_def split: option.split)
  show ?thesis
    using example no_links no_name onSubmitExternal_starts [of world v]
      onSubmitPersonal_starts [of world p]
    by blast
qed

theorem description_deterministic_witness:
  "trim (externalDescription reference_typography) =
     ''External Reference\<newline>Field: Typography\<newline>Date: March 2023\<newline>Duration: 2 weeks\<newline>Authors: A, B'' \<and>
   externalDescription
     (reference_typography\<lparr>ExternalReferenceFormValues.externalLinks := ''https://c.com''\<rparr>) =
     externalDescription reference_typography"
  using description_deterministic [of reference_typography "''https://c.com''" "''Specimen''"
      world_ok poster]
  by (simp add: reference_typography_def)

subsection \<open>Splitting the links\<close>

text \<open>
  C6. The text \<^verbatim>\<open>https://a.com, , https://b.com,\<close> has the two candidate URLs
  \<^verbatim>\<open>https://a.com\<close> and \<^verbatim>\<open>https://b.com\<close>, in this order. When the project was created
  and a session exists, the inserts of the external handler are one per candidate URL (split
  on commas, trimmed, empty tokens dropped), in order, and they follow the creation of the
  project and the session lookup.
\<close>

theorem link_splitting:
  "candidateUrls ''https://a.com, , https://b.com,'' = [''https://a.com'', ''https://b.com''] \<and>
   (addProject world (ExternalReferenceFormValues.name v) (trim (externalDescription v)) = None \<and>
    getSession world = Some user_id \<longrightarrow>
      filter isInsert (onSubmitExternal world v) =
        map (\<lambda>url. Insert url (ExternalReferenceFormValues.name v) user_id)
          (candidateUrls (ExternalReferenceFormValues.externalLinks v)) \<and>
      gatewayCalls (onSubmitExternal world v) =
        AddProject (ExternalReferenceFormValues.name v) (trim (externalDescription v)) #
        GetSession #
        map (\<lambda>url. Insert url (ExternalReferenceFormValues.name v) user_id)
          (candidateUrls (ExternalReferenceFormValues.externalLinks v)))"
proof -
  have example: "candidateUrls ''https://a.com, , https://b.com,'' =
      [''https://a.com'', ''https://b.com'']"
    by (simp add: candidateUrls_def trim_def js_whitespace_def)
  have calls: "filter isGatewayCall (insertLinks w p u k links) =
      map (\<lambda>url. Insert url p u) (filter (\<lambda>url. url \<noteq> []) links)" for w p u k links
    by (induction links arbitrary: k) (auto simp: isGatewayCall_def split: option.splits)
  have run: "filter isInsert (onSubmitExternal world v) =
        map (\<lambda>url. Insert url (ExternalReferenceFormValues.name v) user_id)
          (candidateUrls (ExternalReferenceFormValues.externalLinks v)) \<and>
      gatewayCalls (onSubmitExternal world v) =
        AddProject (ExternalReferenceFormValues.name v) (trim (externalDescription v)) #
        GetSession #
        map (\<lambda>url. Insert url (ExternalReferenceFormValues.name v) user_id)
          (candidateUrls (ExternalReferenceFormValues.externalLinks v))"
    if "addProject world (ExternalReferenceFormValues.name v) (trim (externalDescription v)) = None"
      "getSession world = Some user_id"
    using that
    by (simp add: onSubmitExternal_def Let_def candidateUrls_def insertLinks_inserts
        gatewayCalls_def calls) (simp add: isGatewayCall_def)
  show ?thesis
    using example run by blast
qed

theorem link_splitting_witness:
  "filter isInsert (onSubmitExternal world_ok reference_typography) =
     [Insert ''https://a.com'' ''Specimen'' ''user-1'',
      Insert ''https://b.com'' ''Specimen'' ''user-1'']"
proof -
  have a: "addProject world_ok (ExternalReferenceFormValues.name reference_typography)
      (trim (externalDescription reference_typography)) = None"
    "getSession world_ok = Some ''user-1''"
    by (simp_all add: world_ok_def)
  have l: "ExternalReferenceFormValues.externalLinks reference_typography =
      ''https://a.com, , https://b.com,''"
    "ExternalReferenceFormValues.name reference_typography = ''Specimen''"
    by (simp_all add: reference_typography_def)
  show ?thesis
    using link_splitting [of world_ok reference_typography "''user-1''"] a
    by (simp add: l)
qed

subsection \<open>A personal project\<close>

text \<open>
  C7. The personal values with name \<^verbatim>\<open>Poster\<close>, field \<^verbatim>\<open>Print\<close> and year 2022, the
  other fields absent (\<open>poster\<close>) or empty as the form holds them (\<open>poster_form\<close>), are
  valid. Their submission makes exactly one gateway call, \<^verbatim>\<open>addProject\<close> with the name
  \<^verbatim>\<open>Poster\<close> and the description \<^verbatim>\<open>Field: Print\<close>, newline, \<^verbatim>\<open>Year: 2022\<close>; when that
  call succeeds, the success toast is shown, the dialog closed and the form reset.
\<close>

theorem personal_poster:
  "personalProjectSchema poster = Inr poster \<and>
   personalProjectSchema poster_form = Inr poster_form \<and>
   gatewayCalls (onSubmitPersonal world poster) =
     [AddProject ''Poster'' ''Field: Print\<newline>Year: 2022''] \<and>
   gatewayCalls (onSubmitPersonal world poster_form) =
     [AddProject ''Poster'' ''Field: Print\<newline>Year: 2022''] \<and>
   (addProject world ''Poster'' ''Field: Print\<newline>Year: 2022'' = None \<longrightarrow>
      handleSubmit personalProjectSchema (onSubmitPersonal world) poster =
        ([], [AddProject ''Poster'' ''Field: Print\<newline>Year: 2022'',
              ToastSuccess ''Project created successfully!'', SetOpen False,
              Reset personalForm]) \<and>
      handleSubmit personalProjectSchema (onSubmitPersonal world) poster_form =
        ([], [AddProject ''Poster'' ''Field: Print\<newline>Year: 2022'',
              ToastSuccess ''Project created successfully!'', SetOpen False,
              Reset personalForm]))"
proof -
  have calls: "gatewayCalls (onSubmitPersonal world poster) =
     [AddProject ''Poster'' ''Field: Print\<newline>Year: 2022'']"
    "gatewayCalls (onSubmitPersonal world poster_form) =
     [AddProject ''Poster'' ''Field: Print\<newline>Year: 2022'']"
    by (simp_all add: onSubmitPersonal_calls description_poster poster_name)
  have created: "handleSubmit personalProjectSchema (onSubmitPersonal world) poster =
        ([], [AddProject ''Poster'' ''Field: Print\<newline>Year: 2022'',
              ToastSuccess ''Project created successfully!'', SetOpen False,
              Reset personalForm]) \<and>
      handleSubmit personalProjectSchema (onSubmitPersonal world) poster_form =
        ([], [AddProject ''Poster'' ''Field: Print\<newline>Year: 2022'',
              ToastSuccess ''Project created successfully!'', SetOpen False,
              Reset personalForm])"
    if "addProject world ''Poster'' ''Field: Print\<newline>Year: 2022'' = None"
    using that
    by (simp add: handleSubmit_def poster_valid onSubmitPersonal_created description_poster
        poster_name)
  show ?thesis
    using calls created poster_valid by blast
qed

theorem personal_poster_witness:
  "handleSubmit personalProjectSchema (onSubmitPersonal world_ok) poster =
     ([], [AddProject ''Poster'' ''Field: Print\<newline>Year: 2022'',
           ToastSuccess ''Project created successfully!'', SetOpen False,
           Reset personalForm])"
proof -
  have "addProject world_ok ''Poster'' ''Field: Print\<newline>Year: 2022'' = None"
    by (simp add: world_ok_def)
  with personal_poster [of world_ok] show ?thesis by blast
qed

subsection \<open>Name and field are required\<close>

text \<open>
  C8. For both variants, an empty name or an empty field makes the schema return issues,
  among them the issue of that field with the schema's message, and the submission has no
  effect: no gateway call, no write.
\<close>

theorem validation_floor:
  "(PersonalProjectFormValues.name p = [] \<longrightarrow>
      (\<exists>issues. personalProjectSchema p = Inl issues \<and>
         ZodIssue ''name'' too_small (Some ''Project name is required'') \<in> set issues \<and>
         handleSubmit personalProjectSchema (onSubmitPersonal world) p = (issues, []))) \<and>
   (PersonalProjectFormValues.field p = [] \<longrightarrow>
      (\<exists>issues. personalProjectSchema p = Inl issues \<and>
         ZodIssue ''field'' too_small (Some ''Field is required'') \<in> set issues \<and>
         handleSubmit personalProjectSchema (onSubmitPersonal world) p = (issues, []))) \<and>
   (ExternalReferenceFormValues.name v = [] \<longrightarrow>
      (\<exists>issues. externalReferenceSchema v = Inl issues \<and>
         ZodIssue ''name'' too_small (Some ''Reference name is required'') \<in> set issues \<and>
         handleSubmit externalReferenceSchema (onSubmitExternal world) v = (issues, []))) \<and>
   (ExternalReferenceFormValues.field v = [] \<longrightarrow>
      (\<exists>issues. externalReferenceSchema v = Inl issues \<and>
         ZodIssue ''field'' too_small (Some ''Field is required'') \<in> set issues \<and>
         handleSubmit externalReferenceSchema (onSubmitExternal world) v = (issues, [])))"
proof -
  have p_name: "\<exists>issues. personalProjectSchema p = Inl issues \<and>
         ZodIssue ''name'' too_small (Some ''Project name is required'') \<in> set issues \<and>
         handleSubmit personalProjectSchema (onSubmitPersonal world) p = (issues, [])"
    if "PersonalProjectFormValues.name p = []"
    using that by (simp add: personalProjectSchema_def handleSubmit_def string_min1_def Let_def)
  have p_field: "\<exists>issues. personalProjectSchema p = Inl issues \<and>
         ZodIssue ''field'' too_small (Some ''Field is required'') \<in> set issues \<and>
         handleSubmit personalProjectSchema (onSubmitPersonal world) p = (issues, [])"
    if "PersonalProjectFormValues.field p = []"
    using that by (simp add: personalProjectSchema_def handleSubmit_def string_min1_def Let_def)
  have v_name: "\<exists>issues. externalReferenceSchema v = Inl issues \<and>
         ZodIssue ''name'' too_small (Some ''Reference name is required'') \<in> set issues \<and>
         handleSubmit externalReferenceSchema (onSubmitExternal world) v = (issues, [])"
    if "ExternalReferenceFormValues.name v = []"
    using that by (simp add: externalReferenceSchema_def handleSubmit_def string_min1_def Let_def)
  have v_field: "\<exists>issues. externalReferenceSchema v = Inl issues \<and>
         ZodIssue ''field'' too_small (Some ''Field is required'') \<in> set issues \<and>
         handleSubmit externalReferenceSchema (onSubmitExternal world) v = (issues, [])"
    if "ExternalReferenceFormValues.field v = []"
    using that by (simp add: externalReferenceSchema_def handleSubmit_def string_min1_def Let_def)
  show ?thesis
    using p_name p_field v_name v_field by blast
qed

theorem validation_floor_witness:
  "handleSubmit personalProjectSchema (onSubmitPersonal world_ok) poster_no_name =
     ([ZodIssue ''name'' too_small (Some ''Project name is required'')], []) \<and>
   handleSubmit externalReferenceSchema (onSubmitExternal world_ok) reference_no_field =
     ([ZodIssue ''field'' too_small (Some ''Field is required'')], [])"
  using validation_floor [of poster_no_name world_ok reference_no_field]
  by (simp add: poster_no_name_def reference_no_field_def personalProjectSchema_def
      externalReferenceSchema_def string_min1_def handleSubmit_def)

subsection \<open>The personal variant and the link store\<close>

text \<open>
  C9. A run of the personal handler, on any values and in any world, never looks up the
  session and never inserts a link: its only gateway call is one \<^verbatim>\<open>addProject\<close>. The same
  holds of a personal submission through the form.
\<close>

theorem personal_never_identity:
  "filter isGetSession (onSubmitPersonal world p) = [] \<and>
   filter isInsert (onSubmitPersonal world p) = [] \<and>
   gatewayCalls (onSubmitPersonal world p) =
     [AddProject (PersonalProjectFormValues.name p) (trim (personalDescription p))] \<and>
   filter isGetSession (snd (handleSubmit personalProjectSchema (onSubmitPersonal world) p)) = [] \<and>
   filter isInsert (snd (handleSubmit personalProjectSchema (onSubmitPersonal world) p)) = []"
proof -
  have run: "filter isGetSession (onSubmitPersonal world q) = []"
    "filter isInsert (onSubmitPersonal world q) = []" for q
    by (simp_all add: onSubmitPersonal_def Let_def split: option.split)
  have submit: "filter isGetSession
        (snd (handleSubmit personalProjectSchema (onSubmitPersonal world) p)) = []"
    "filter isInsert (snd (handleSubmit personalProjectSchema (onSubmitPersonal world) p)) = []"
    by (simp_all add: handleSubmit_def run split: sum.split)
  show ?thesis
    using run submit onSubmitPersonal_calls [of world p] by simp
qed

theorem personal_never_identity_witness:
  "gatewayCalls (onSubmitPersonal world_ok poster) =
     [AddProject ''Poster'' ''Field: Print\<newline>Year: 2022''] \<and>
   filter isGetSession (onSubmitPersonal world_ok poster) = [] \<and>
   filter isInsert (onSubmitPersonal world_ok poster) = []"
  using personal_never_identity [of world_ok poster]
  by (simp add: description_poster poster_name)

subsection \<open>Names of white space\<close>

text \<open>
  C10. The checks on name and field count characters, white space included: for both
  variants every non-empty name and field pass (with a year in range, and for the external
  variant non-empty links), and the submission goes on to \<^verbatim>\<open>addProject\<close> with that very
  name. In particular a name and a field of a single space are accepted.
\<close>

theorem whitespace_accepted:
  "(PersonalProjectFormValues.name p \<noteq> [] \<and> PersonalProjectFormValues.field p \<noteq> [] \<and>
    yearInRange (PersonalProjectFormValues.year p) \<longrightarrow>
      personalProjectSchema p = Inr p \<and>
      (\<exists>rest. snd (handleSubmit personalProjectSchema (onSubmitPersonal world) p) =
         AddProject (PersonalProjectFormValues.name p) (trim (personalDescription p)) # rest)) \<and>
   (ExternalReferenceFormValues.name v \<noteq> [] \<and> ExternalReferenceFormValues.field v \<noteq> [] \<and>
    yearInRange (ExternalReferenceFormValues.year v) \<and>
    ExternalReferenceFormValues.externalLinks v \<noteq> [] \<longrightarrow>
      externalReferenceSchema v = Inr v \<and>
      (\<exists>rest. snd (handleSubmit externalReferenceSchema (onSubmitExternal world) v) =
         AddProject (ExternalReferenceFormValues.name v) (trim (externalDescription v)) # rest)) \<and>
   personalProjectSchema poster_blank = Inr poster_blank \<and>
   externalReferenceSchema reference_blank = Inr reference_blank \<and>
   list_all js_whitespace (PersonalProjectFormValues.name poster_blank) \<and>
   list_all js_whitespace (PersonalProjectFormValues.field poster_blank) \<and>
   list_all js_whitespace (ExternalReferenceFormValues.name reference_blank) \<and>
   list_all js_whitespace (ExternalReferenceFormValues.field reference_blank)"
proof -
  have personal: "personalProjectSchema p = Inr p \<and>
      (\<exists>rest. snd (handleSubmit personalProjectSchema (onSubmitPersonal world) p) =
         AddProject (PersonalProjectFormValues.name p) (trim (personalDescription p)) # rest)"
    if "PersonalProjectFormValues.name p \<noteq> []" "PersonalProjectFormValues.field p \<noteq> []"
      "yearInRange (PersonalProjectFormValues.year p)"
    using personalProjectSchema_accepts [OF that] onSubmitPersonal_starts [of world p]
    by (simp add: handleSubmit_def)
  have external: "externalReferenceSchema v = Inr v \<and>
      (\<exists>rest. snd (handleSubmit externalReferenceSchema (onSubmitExternal world) v) =
         AddProject (ExternalReferenceFormValues.name v) (trim (externalDescription v)) # rest)"
    if "ExternalReferenceFormValues.name v \<noteq> []" "ExternalReferenceFormValues.field v \<noteq> []"
      "yearInRange (ExternalReferenceFormValues.year v)"
      "ExternalReferenceFormValues.externalLinks v \<noteq> []"
    using externalReferenceSchema_accepts [OF that] onSubmitExternal_starts [of world v]
    by (simp add: handleSubmit_def)
  have blank: "personalProjectSchema poster_blank = Inr poster_blank"
    "externalReferenceSchema reference_blank = Inr reference_blank"
    by (rule personalProjectSchema_accepts externalReferenceSchema_accepts;
        simp add: poster_blank_def reference_blank_def)+
  have ws: "list_all js_whitespace (PersonalProjectFormValues.name poster_blank)"
    "list_all js_whitespace (PersonalProjectFormValues.field poster_blank)"
    "list_all js_whitespace (ExternalReferenceFormValues.name reference_blank)"
    "list_all js_whitespace (ExternalReferenceFormValues.field reference_blank)"
    by (simp_all add: poster_blank_def reference_blank_def js_whitespace_def)
  show ?thesis
    using personal external blank ws by blast
qed

theorem whitespace_accepted_witness:
  "(\<exists>rest. snd (handleSubmit personalProjectSchema (onSubmitPersonal world_ok) poster_blank) =
      AddProject '' '' ''Field:'' # rest) \<and>
   (\<exists>rest. snd (handleSubmit externalReferenceSchema (onSubmitExternal world_ok) reference_blank) =
      AddProject '' '' ''External Reference\<newline>Field:'' # rest)"
proof -
  have d: "trim (personalDescription poster_blank) = ''Field:''"
    "trim (externalDescription reference_blank) = ''External Reference\<newline>Field:''"
    by (simp_all add: personalDescription_def externalDescription_def poster_blank_def
        reference_blank_def trim_def js_whitespace_def)
  have n: "PersonalProjectFormValues.name poster_blank = '' ''"
    "PersonalProjectFormValues.field poster_blank = '' ''"
    "PersonalProjectFormValues.year poster_blank = None"
    "ExternalReferenceFormValues.name reference_blank = '' ''"
    "ExternalReferenceFormValues.field reference_blank = '' ''"
    "ExternalReferenceFormValues.year reference_blank = None"
    "ExternalReferenceFormValues.externalLinks reference_blank = ''https://a.com''"
    by (simp_all add: poster_blank_def reference_blank_def)
  show ?thesis
    using whitespace_accepted [of poster_blank world_ok reference_blank]
    by (simp add: d n)
qed

end
